theory Spec2Isabelle
  imports Main
begin

section \<open>Python values and exceptions\<close>

text \<open>
  The arguments of \<open>Rectangle.__init__\<close> are untyped Python values. Only their runtime
  type matters to the code. A float is kept as mantissa and binary exponent, so that
  \<open>2.5\<close> is \<open>PyFloat 5 (- 1)\<close>.
\<close>

datatype pyval =
    PyInt int
  | PyBool bool
  | PyFloat int int
  | PyStr string
  | PyNone

text \<open>
  \<open>isinstance(v, int)\<close>: \<open>bool\<close> is a subclass of \<open>int\<close> in Python, so both the
  integers and the booleans pass; nothing else does.
\<close>

fun isinstance_int :: "pyval \<Rightarrow> bool" where
  "isinstance_int (PyInt i) = True"
| "isinstance_int (PyBool t) = True"
| "isinstance_int (PyFloat m e) = False"
| "isinstance_int (PyStr s) = False"
| "isinstance_int PyNone = False"

text \<open>The two exception classes the sources raise, each with its message.\<close>

datatype exn =
    ValueError string
  | Exception string

fun str_exn :: "exn \<Rightarrow> string" where
  "str_exn (ValueError m) = m"
| "str_exn (Exception m) = m"

type_synonym dict = "string \<rightharpoonup> pyval"

section \<open>Custom-Classes-Code/Rectangle.py\<close>

record rectangle =
  self_l :: pyval
  self_b :: pyval

text \<open>\<open>Rectangle.__init__\<close>: the type check, then the two attribute stores.\<close>

definition Rectangle_init :: "pyval \<Rightarrow> pyval \<Rightarrow> exn + rectangle" where
  "Rectangle_init l b =
     (if \<not> isinstance_int l \<or> \<not> isinstance_int b
      then Inl (ValueError ''Length and Breadth must be numbers'')
      else Inr \<lparr>self_l = l, self_b = b\<rparr>)"

text \<open>
  \<open>Rectangle.__iter__\<close> is a generator function. Calling it builds a new generator
  object, suspended before the first statement; each \<open>next\<close> runs it to the following
  \<open>yield\<close>, and running off the end raises \<open>StopIteration\<close> (the value \<open>None\<close> here).
\<close>

datatype gen_pc = AtStart | AfterLength | Exhausted

record generator =
  gen_self :: rectangle
  gen_pc :: gen_pc

definition Rectangle_iter :: "rectangle \<Rightarrow> generator" where
  "Rectangle_iter self = \<lparr>gen_self = self, gen_pc = AtStart\<rparr>"

definition gen_next :: "generator \<Rightarrow> dict option \<times> generator" where
  "gen_next g =
     (case gen_pc g of
        AtStart \<Rightarrow> (Some [''length'' \<mapsto> self_l (gen_self g)], g\<lparr>gen_pc := AfterLength\<rparr>)
      | AfterLength \<Rightarrow> (Some [''width'' \<mapsto> self_b (gen_self g)], g\<lparr>gen_pc := Exhausted\<rparr>)
      | Exhausted \<Rightarrow> (None, g))"

text \<open>
  What a \<open>for\<close> loop or \<open>list(...)\<close> does with a generator: call \<open>next\<close> until
  \<open>StopIteration\<close>. The result is the list of yielded values and the generator as the
  loop leaves it.
\<close>

fun pc_rank :: "gen_pc \<Rightarrow> nat" where
  "pc_rank AtStart = 2"
| "pc_rank AfterLength = 1"
| "pc_rank Exhausted = 0"

function drain :: "generator \<Rightarrow> dict list \<times> generator" where
  "drain g =
     (let r = gen_next g in
      case fst r of
        None \<Rightarrow> ([], snd r)
      | Some d \<Rightarrow> (let rest = drain (snd r) in (d # fst rest, snd rest)))"
  by pat_completeness auto
termination
  by (relation "measure (\<lambda>g. pc_rank (gen_pc g))")
     (auto simp: gen_next_def split: gen_pc.splits)

section \<open>The observable world of a request\<close>

text \<open>
  A request runs in one thread. Its observable effects are the lines it prints, the time
  it sleeps, and what the persistence layer does; they are recorded in order in \<open>out\<close>.
  \<open>rows\<close> is the table of User entities and \<open>current_thread\<close> is
  \<open>threading.current_thread().name\<close>.
\<close>

record user =
  user_id :: nat
  username :: string

datatype event =
    Print string
  | Sleep nat
  | AtomicEnter
  | RowInsert user
  | AtomicCommit
  | AtomicRollback

record world =
  rows :: "user list"
  out :: "event list"
  current_thread :: string

definition py_print :: "string \<Rightarrow> world \<Rightarrow> world" where
  "py_print s w = w\<lparr>out := out w @ [Print s]\<rparr>"

definition time_sleep :: "nat \<Rightarrow> world \<Rightarrow> world" where
  "time_sleep n w = w\<lparr>out := out w @ [Sleep n]\<rparr>"

section \<open>myapp/signals.py\<close>

datatype model_class = User

text \<open>
  \<open>user_post_save(sender, instance, created, **kwargs)\<close>. The keyword arguments are
  never read and are left out.
\<close>

definition user_post_save :: "model_class \<Rightarrow> user \<Rightarrow> bool \<Rightarrow> world \<Rightarrow> world" where
  "user_post_save sender inst created w =
     (if created then
        (let w = py_print (''Signal handler running in thread: '' @ current_thread w) w;
             w = py_print (''Signal handler: User '' @ username inst @ '' created'') w;
             w = time_sleep 5 w;
             w = py_print ''Signal handler done after 5 seconds'' w;
             w = py_print ''Signal handler completed.'' w
         in w)
      else w)"

section \<open>The persistence layer and the notification registry\<close>

text \<open>
  Modelled from the spec: the identifier a User entity is assigned on insert. The table
  and its key sequence belong to the persistence layer, which is not among the sources.
  The new identifier is one above every identifier in the table.
\<close>

fun max_id :: "user list \<Rightarrow> nat" where
  "max_id [] = 0"
| "max_id (u # us) = max (user_id u) (max_id us)"

definition new_user :: "string \<Rightarrow> user list \<Rightarrow> user" where
  "new_user name table = \<lparr>user_id = Suc (max_id table), username = name\<rparr>"

text \<open>
  Modelled from the spec: the entity-creation operation \<open>User.objects.create\<close> and the
  registry that \<open>@receiver(post_save, sender=User)\<close> registers with, neither of which is
  among the sources. The spec's sections 2, 4.2 and 9: the row is written, then the
  registered callback is called directly and synchronously, in the caller's thread, with
  \<open>created\<close> set, and control returns to the caller after it.
\<close>

definition objects_create :: "string \<Rightarrow> world \<Rightarrow> user \<times> world" where
  "objects_create name w =
     (let u = new_user name (rows w);
          w = w\<lparr>rows := rows w @ [u], out := out w @ [RowInsert u]\<rparr>;
          w = user_post_save User u True w
      in (u, w))"

text \<open>
  Modelled from the spec: the scoped transactional unit of work \<open>transaction.atomic()\<close>,
  which is not among the sources. The spec's sections 4.1 and 9: it begins, runs the
  body, and on exit either commits, or, when the body raised, discards every write made
  within it and lets the exception through. Only the table is transactional: what was
  printed stays printed.
\<close>

definition atomic :: "(world \<Rightarrow> (exn + 'a) \<times> world) \<Rightarrow> world \<Rightarrow> (exn + 'a) \<times> world" where
  "atomic body w =
     (let saved = rows w;
          (r, w') = body (w\<lparr>out := out w @ [AtomicEnter]\<rparr>)
      in case r of
           Inl e \<Rightarrow> (Inl e, w'\<lparr>rows := saved, out := out w' @ [AtomicRollback]\<rparr>)
         | Inr v \<Rightarrow> (Inr v, w'\<lparr>out := out w' @ [AtomicCommit]\<rparr>))"

section \<open>myapp/views.py\<close>

text \<open>The request carries its query parameters; \<open>HttpResponse\<close> carries the body.\<close>

record request =
  GET :: "string \<rightharpoonup> string"

datatype http_response = HttpResponse string

text \<open>\<open>d.get(key, default)\<close>.\<close>

definition dict_get :: "('k \<rightharpoonup> 'v) \<Rightarrow> 'k \<Rightarrow> 'v \<Rightarrow> 'v" where
  "dict_get d k dflt = (case d k of None \<Rightarrow> dflt | Some v \<Rightarrow> v)"

text \<open>The body of the \<open>with transaction.atomic():\<close> block of \<open>create_user\<close>.\<close>

definition create_user_block :: "request \<Rightarrow> world \<Rightarrow> (exn + unit) \<times> world" where
  "create_user_block request w =
     (let w = py_print ''Starting user creation process...'' w;
          (user, w) = objects_create (current_thread w @ ''1'') w;
          w = py_print
                ''User creation process finished, but before committing transaction...'' w
      in if dict_get (GET request) ''fail'' ''no'' = ''yes''
         then (Inl (Exception ''Simulating an error to roll back the transaction''), w)
         else (Inr (), w))"

definition create_user :: "request \<Rightarrow> world \<Rightarrow> http_response \<times> world" where
  "create_user request w =
     (let w = py_print (''View running in thread: '' @ current_thread w) w;
          (r, w) = atomic (create_user_block request) w
      in case r of
           Inl e \<Rightarrow>
             (let w = py_print (''Exception occurred: '' @ str_exn e) w
              in (HttpResponse ''Transaction failed, user was not created!'', w))
         | Inr ok \<Rightarrow> (HttpResponse ''User created successfully!'', w))"

section \<open>Reading traces\<close>

text \<open>What an operation adds to the trace of the world it starts in.\<close>

definition emitted :: "world \<Rightarrow> world \<Rightarrow> event list" where
  "emitted w w' = drop (length (out w)) (out w')"

text \<open>
  The side effects of one call of the notifier for a newly created entity, read off the
  code of \<open>user_post_save\<close>.
\<close>

definition notifier_effects :: "string \<Rightarrow> user \<Rightarrow> event list" where
  "notifier_effects thread u =
     out (user_post_save User u True \<lparr>rows = [], out = [], current_thread = thread\<rparr>)"

text \<open>The number of positions of \<open>xs\<close> at which \<open>ys\<close> occurs as a contiguous block.\<close>

fun occurrences :: "'a list \<Rightarrow> 'a list \<Rightarrow> nat" where
  "occurrences ys [] = (if ys = [] then 1 else 0)"
| "occurrences ys (x # xs) =
     (if take (length ys) (x # xs) = ys then 1 else 0) + occurrences ys xs"

text \<open>The entities whose rows a trace inserts, in order.\<close>

fun inserted :: "event list \<Rightarrow> user list" where
  "inserted [] = []"
| "inserted (RowInsert u # es) = u # inserted es"
| "inserted (e # es) = inserted es"

section \<open>Shared facts\<close>

lemma post_save_created:
  "user_post_save s u True w = w\<lparr>out := out w @ notifier_effects (current_thread w) u\<rparr>"
  by (simp add: user_post_save_def notifier_effects_def py_print_def time_sleep_def)

lemma notifier_effects_eq:
  "notifier_effects th u =
     [Print (''Signal handler running in thread: '' @ th),
      Print (''Signal handler: User '' @ username u @ '' created''),
      Sleep 5,
      Print ''Signal handler done after 5 seconds'',
      Print ''Signal handler completed.'']"
  by (simp add: user_post_save_def notifier_effects_def py_print_def time_sleep_def)

lemma create_user_block_eq:
  "create_user_block request w =
     (let u = new_user (current_thread w @ ''1'') (rows w);
          w' = w\<lparr>rows := rows w @ [u],
                 out := out w @ [Print ''Starting user creation process...'', RowInsert u]
                   @ notifier_effects (current_thread w) u
                   @ [Print ''User creation process finished, but before committing transaction...'']\<rparr>
      in if dict_get (GET request) ''fail'' ''no'' = ''yes''
         then (Inl (Exception ''Simulating an error to roll back the transaction''), w')
         else (Inr (), w'))"
  by (simp add: create_user_block_def objects_create_def post_save_created py_print_def Let_def)

lemma create_user_eq:
  "create_user request w =
     (let u = new_user (current_thread w @ ''1'') (rows w);
          evs = [Print (''View running in thread: '' @ current_thread w), AtomicEnter,
                 Print ''Starting user creation process...'', RowInsert u]
                @ notifier_effects (current_thread w) u
                @ [Print ''User creation process finished, but before committing transaction...'']
      in if dict_get (GET request) ''fail'' ''no'' = ''yes''
         then (HttpResponse ''Transaction failed, user was not created!'',
               w\<lparr>out := out w @ evs @ [AtomicRollback,
                 Print ''Exception occurred: Simulating an error to roll back the transaction'']\<rparr>)
         else (HttpResponse ''User created successfully!'',
               w\<lparr>rows := rows w @ [u], out := out w @ evs @ [AtomicCommit]\<rparr>))"
  by (simp add: create_user_def create_user_block_eq atomic_def py_print_def Let_def)

lemma emitted_append [simp]: "emitted w (w'\<lparr>out := out w @ evs\<rparr>) = evs"
  by (simp add: emitted_def)



lemma dict_get_fail_yes:
  "(dict_get (GET request) ''fail'' ''no'' = ''yes'') = (GET request ''fail'' = Some ''yes'')"
  by (simp add: dict_get_def split: option.split)

lemma drain_fresh:
  "drain (Rectangle_iter r) =
     ([[''length'' \<mapsto> self_l r], [''width'' \<mapsto> self_b r]],
      \<lparr>gen_self = r, gen_pc = Exhausted\<rparr>)"
proof -
  have 3: "drain \<lparr>gen_self = r, gen_pc = Exhausted\<rparr> = ([], \<lparr>gen_self = r, gen_pc = Exhausted\<rparr>)"
    by (subst drain.simps) (simp add: gen_next_def)
  have 2: "drain \<lparr>gen_self = r, gen_pc = AfterLength\<rparr> =
             ([[''width'' \<mapsto> self_b r]], \<lparr>gen_self = r, gen_pc = Exhausted\<rparr>)"
    by (subst drain.simps) (simp add: gen_next_def 3)
  show ?thesis
    unfolding Rectangle_iter_def
    by (subst drain.simps) (simp add: gen_next_def 2)
qed

section \<open>The request handler and the creation notifier\<close>

text \<open>
  C1. For every request, whatever its parameters, the events of the request contain the
  full side-effect sequence of the creation notifier exactly once, as one block: the log
  of the current thread's name, the creation message naming the created entity (the
  thread's name followed by \<open>1\<close>), the delay of 5, and the two completion logs. Each
  of these five events occurs exactly once among the events of the request, and the
  request sleeps exactly once. The request is arbitrary, and the scope is decided after
  the block, by a commit or by a rollback: the block is there in both cases.
\<close>

theorem notifier_runs_exactly_once:
  "occurrences
     [Print (''Signal handler running in thread: '' @ current_thread w),
      Print (''Signal handler: User '' @ current_thread w @ ''1'' @ '' created''),
      Sleep 5,
      Print ''Signal handler done after 5 seconds'',
      Print ''Signal handler completed.'']
     (emitted w (snd (create_user request w))) = 1
   \<and> count_list (emitted w (snd (create_user request w)))
        (Print (''Signal handler running in thread: '' @ current_thread w)) = 1
   \<and> count_list (emitted w (snd (create_user request w)))
        (Print (''Signal handler: User '' @ current_thread w @ ''1'' @ '' created'')) = 1
   \<and> count_list (emitted w (snd (create_user request w))) (Sleep 5) = 1
   \<and> count_list (emitted w (snd (create_user request w)))
        (Print ''Signal handler done after 5 seconds'') = 1
   \<and> count_list (emitted w (snd (create_user request w)))
        (Print ''Signal handler completed.'') = 1
   \<and> length (filter (\<lambda>e. case e of Sleep n \<Rightarrow> True | _ \<Rightarrow> False)
        (emitted w (snd (create_user request w)))) = 1
   \<and> (if GET request ''fail'' = Some ''yes''
       then AtomicRollback \<in> set (emitted w (snd (create_user request w)))
       else AtomicCommit \<in> set (emitted w (snd (create_user request w))))"
  by (simp add: create_user_eq dict_get_fail_yes notifier_effects_eq new_user_def Let_def)

theorem notifier_runs_exactly_once_witness:
  "occurrences
     [Print ''Signal handler running in thread: Thread-1'',
      Print ''Signal handler: User Thread-11 created'',
      Sleep 5,
      Print ''Signal handler done after 5 seconds'',
      Print ''Signal handler completed.'']
     (emitted \<lparr>rows = [], out = [], current_thread = ''Thread-1''\<rparr>
        (snd (create_user \<lparr>GET = [''fail'' \<mapsto> ''yes'']\<rparr>
           \<lparr>rows = [], out = [], current_thread = ''Thread-1''\<rparr>))) = 1
   \<and> AtomicRollback \<in> set
     (emitted \<lparr>rows = [], out = [], current_thread = ''Thread-1''\<rparr>
        (snd (create_user \<lparr>GET = [''fail'' \<mapsto> ''yes'']\<rparr>
           \<lparr>rows = [], out = [], current_thread = ''Thread-1''\<rparr>)))
   \<and> occurrences
     [Print ''Signal handler running in thread: Thread-1'',
      Print ''Signal handler: User Thread-11 created'',
      Sleep 5,
      Print ''Signal handler done after 5 seconds'',
      Print ''Signal handler completed.'']
     (emitted \<lparr>rows = [], out = [], current_thread = ''Thread-1''\<rparr>
        (snd (create_user \<lparr>GET = Map.empty\<rparr>
           \<lparr>rows = [], out = [], current_thread = ''Thread-1''\<rparr>))) = 1
   \<and> AtomicCommit \<in> set
     (emitted \<lparr>rows = [], out = [], current_thread = ''Thread-1''\<rparr>
        (snd (create_user \<lparr>GET = Map.empty\<rparr>
           \<lparr>rows = [], out = [], current_thread = ''Thread-1''\<rparr>)))"
  using
    notifier_runs_exactly_once [of "\<lparr>rows = [], out = [], current_thread = ''Thread-1''\<rparr>"
      "\<lparr>GET = [''fail'' \<mapsto> ''yes'']\<rparr>"]
    notifier_runs_exactly_once [of "\<lparr>rows = [], out = [], current_thread = ''Thread-1''\<rparr>"
      "\<lparr>GET = Map.empty\<rparr>"]
  by simp



text \<open>
  C3. When the query parameter \<open>fail\<close> is absent or is any string other than \<open>yes\<close>:
  the block inside the transactional scope raises nothing, the scope commits, the
  created entity is in the table after the request (which is the table before it with
  that one row added), and the response is exactly the success text.
\<close>

theorem fail_other_commits:
  assumes "GET request ''fail'' \<noteq> Some ''yes''"
  shows "fst (create_user_block request w0) = Inr ()
         \<and> rows (snd (create_user request w)) =
             rows w @ [new_user (current_thread w @ ''1'') (rows w)]
         \<and> new_user (current_thread w @ ''1'') (rows w) \<in> set (rows (snd (create_user request w)))
         \<and> AtomicCommit \<in> set (emitted w (snd (create_user request w)))
         \<and> AtomicRollback \<notin> set (emitted w (snd (create_user request w)))
         \<and> fst (create_user request w) = HttpResponse ''User created successfully!''"
  using assms
  by (simp add: create_user_eq create_user_block_eq dict_get_fail_yes notifier_effects_eq
      Let_def)

theorem fail_other_commits_witness:
  "rows (snd (create_user \<lparr>GET = Map.empty\<rparr>
      \<lparr>rows = [\<lparr>user_id = 7, username = ''admin''\<rparr>], out = [],
       current_thread = ''Thread-1''\<rparr>)) =
     [\<lparr>user_id = 7, username = ''admin''\<rparr>, \<lparr>user_id = 8, username = ''Thread-11''\<rparr>]
   \<and> fst (create_user \<lparr>GET = Map.empty\<rparr>
      \<lparr>rows = [\<lparr>user_id = 7, username = ''admin''\<rparr>], out = [],
       current_thread = ''Thread-1''\<rparr>) = HttpResponse ''User created successfully!''
   \<and> fst (create_user \<lparr>GET = [''fail'' \<mapsto> ''Yes'']\<rparr>
      \<lparr>rows = [], out = [], current_thread = ''Thread-2''\<rparr>) =
     HttpResponse ''User created successfully!''"
  using
    fail_other_commits [of "\<lparr>GET = Map.empty\<rparr>"
      "\<lparr>rows = [\<lparr>user_id = 7, username = ''admin''\<rparr>], out = [],
        current_thread = ''Thread-1''\<rparr>"
      "\<lparr>rows = [\<lparr>user_id = 7, username = ''admin''\<rparr>], out = [],
        current_thread = ''Thread-1''\<rparr>"]
    fail_other_commits [of "\<lparr>GET = [''fail'' \<mapsto> ''Yes'']\<rparr>"
      "\<lparr>rows = [], out = [], current_thread = ''Thread-2''\<rparr>"
      "\<lparr>rows = [], out = [], current_thread = ''Thread-2''\<rparr>"]
  by (simp add: new_user_def)

text \<open>
  C4. The events of every request are, in this order: the handler's thread log, the
  scope entered, the start log, the row insert of the entity creation, then the whole
  sequence of the creation notifier (ending after its delay and completion logs), then
  the handler's log after the creation, then the decision of the scope (rollback when
  \<open>fail\<close> is \<open>yes\<close>, commit otherwise), then, after a rollback, the handler's log of
  the exception. No event occurs twice, so the order is total.
\<close>

theorem request_events_ordered:
  "emitted w (snd (create_user request w)) =
     [Print (''View running in thread: '' @ current_thread w), AtomicEnter,
      Print ''Starting user creation process...'']
     @ [RowInsert (new_user (current_thread w @ ''1'') (rows w))]
     @ notifier_effects (current_thread w) (new_user (current_thread w @ ''1'') (rows w))
     @ [Print ''User creation process finished, but before committing transaction...'']
     @ (if GET request ''fail'' = Some ''yes''
        then [AtomicRollback,
              Print ''Exception occurred: Simulating an error to roll back the transaction'']
        else [AtomicCommit])
   \<and> distinct (emitted w (snd (create_user request w)))
   \<and> Sleep 5 \<in> set (notifier_effects (current_thread w)
       (new_user (current_thread w @ ''1'') (rows w)))"
  by (simp add: create_user_eq dict_get_fail_yes notifier_effects_eq Let_def)

theorem request_events_ordered_witness:
  "emitted \<lparr>rows = [], out = [], current_thread = ''T''\<rparr>
     (snd (create_user \<lparr>GET = [''fail'' \<mapsto> ''yes'']\<rparr>
        \<lparr>rows = [], out = [], current_thread = ''T''\<rparr>)) =
     [Print ''View running in thread: T'', AtomicEnter,
      Print ''Starting user creation process...'',
      RowInsert \<lparr>user_id = 1, username = ''T1''\<rparr>,
      Print ''Signal handler running in thread: T'',
      Print ''Signal handler: User T1 created'',
      Sleep 5,
      Print ''Signal handler done after 5 seconds'',
      Print ''Signal handler completed.'',
      Print ''User creation process finished, but before committing transaction...'',
      AtomicRollback,
      Print ''Exception occurred: Simulating an error to roll back the transaction'']"
  using request_events_ordered [of "\<lparr>rows = [], out = [], current_thread = ''T''\<rparr>"
      "\<lparr>GET = [''fail'' \<mapsto> ''yes'']\<rparr>"]
  by (simp add: notifier_effects_eq new_user_def)

text \<open>
  C5. Called for a newly created entity (\<open>created\<close> true), the notifier adds to the
  trace exactly: the log of the current thread's name, the creation message with the
  entity's name in it, the delay of 5, and the two completion logs, in this order; it
  changes nothing else.
\<close>

theorem notifier_side_effects_in_order:
  "user_post_save sender u True w =
     w\<lparr>out := out w @
       [Print (''Signal handler running in thread: '' @ current_thread w),
        Print (''Signal handler: User '' @ username u @ '' created''),
        Sleep 5,
        Print ''Signal handler done after 5 seconds'',
        Print ''Signal handler completed.'']\<rparr>"
  by (simp add: user_post_save_def py_print_def time_sleep_def)

theorem notifier_side_effects_in_order_witness:
  "out (user_post_save User \<lparr>user_id = 1, username = ''T1''\<rparr> True
     \<lparr>rows = [], out = [], current_thread = ''T''\<rparr>) =
     [Print ''Signal handler running in thread: T'',
      Print ''Signal handler: User T1 created'',
      Sleep 5,
      Print ''Signal handler done after 5 seconds'',
      Print ''Signal handler completed.'']"
  using notifier_side_effects_in_order [of User "\<lparr>user_id = 1, username = ''T1''\<rparr>"
      "\<lparr>rows = [], out = [], current_thread = ''T''\<rparr>"]
  by simp

text \<open>
  C8. Every request creates exactly one User entity, and its name is the name of the
  current thread followed by the fixed suffix \<open>1\<close>.
\<close>

theorem created_user_name:
  "map username (inserted (emitted w (snd (create_user request w)))) =
     [current_thread w @ ''1'']"
  by (simp add: create_user_eq notifier_effects_eq new_user_def Let_def)

theorem created_user_name_witness:
  "map username (inserted (emitted \<lparr>rows = [], out = [], current_thread = ''Thread-1''\<rparr>
     (snd (create_user \<lparr>GET = Map.empty\<rparr>
        \<lparr>rows = [], out = [], current_thread = ''Thread-1''\<rparr>)))) = [''Thread-11'']"
  using created_user_name [of "\<lparr>rows = [], out = [], current_thread = ''Thread-1''\<rparr>"
      "\<lparr>GET = Map.empty\<rparr>"]
  by simp

text \<open>
  C9. Called for a save that is not a creation (\<open>created\<close> false), the notifier does
  nothing: the world it returns is the world it was given, with no log and no delay
  added.
\<close>

theorem notifier_not_created_no_effect:
  "user_post_save sender u False w = w
   \<and> emitted w (user_post_save sender u False w) = []"
  by (simp add: user_post_save_def emitted_def)

theorem notifier_not_created_no_effect_witness:
  "user_post_save User \<lparr>user_id = 1, username = ''T1''\<rparr> False
     \<lparr>rows = [], out = [Print ''earlier''], current_thread = ''T''\<rparr> =
   \<lparr>rows = [], out = [Print ''earlier''], current_thread = ''T''\<rparr>"
  using notifier_not_created_no_effect [of User "\<lparr>user_id = 1, username = ''T1''\<rparr>"
      "\<lparr>rows = [], out = [Print ''earlier''], current_thread = ''T''\<rparr>"]
  by simp

section \<open>The rectangle\<close>

text \<open>
  C6. \<open>Rectangle(3, 4)\<close> is constructed, and iterating it yields exactly the mapping
  of \<open>length\<close> to 3 and then the mapping of \<open>width\<close> to 4, and nothing else. The
  iteration leaves the instance as it was, and an iteration started afterwards, or
  started while an earlier one is suspended after its first value, yields the same two
  mappings again.
\<close>

theorem rectangle_3_4_iteration:
  "Rectangle_init (PyInt 3) (PyInt 4) = Inr \<lparr>self_l = PyInt 3, self_b = PyInt 4\<rparr>
   \<and> fst (drain (Rectangle_iter \<lparr>self_l = PyInt 3, self_b = PyInt 4\<rparr>)) =
       [[''length'' \<mapsto> PyInt 3], [''width'' \<mapsto> PyInt 4]]
   \<and> gen_self (snd (drain (Rectangle_iter \<lparr>self_l = PyInt 3, self_b = PyInt 4\<rparr>))) =
       \<lparr>self_l = PyInt 3, self_b = PyInt 4\<rparr>
   \<and> fst (drain (Rectangle_iter
         (gen_self (snd (drain (Rectangle_iter \<lparr>self_l = PyInt 3, self_b = PyInt 4\<rparr>)))))) =
       [[''length'' \<mapsto> PyInt 3], [''width'' \<mapsto> PyInt 4]]
   \<and> fst (drain (Rectangle_iter
         (gen_self (snd (gen_next (Rectangle_iter \<lparr>self_l = PyInt 3, self_b = PyInt 4\<rparr>)))))) =
       [[''length'' \<mapsto> PyInt 3], [''width'' \<mapsto> PyInt 4]]"
  by (simp add: Rectangle_init_def drain_fresh) (simp add: gen_next_def Rectangle_iter_def)

theorem rectangle_3_4_iteration_witness:
  "map dom (fst (drain (Rectangle_iter \<lparr>self_l = PyInt 3, self_b = PyInt 4\<rparr>))) =
     [{''length''}, {''width''}]"
  using rectangle_3_4_iteration by simp

text \<open>
  C7. Construction fails with \<open>ValueError\<close> whenever the length argument is not an
  integer, and whenever the width argument is not an integer, whatever the other
  argument is; with two integer arguments it succeeds and stores them.
\<close>

theorem rectangle_init_rejects_non_integers:
  "(\<not> isinstance_int l \<longrightarrow>
      Rectangle_init l b = Inl (ValueError ''Length and Breadth must be numbers''))
   \<and> (\<not> isinstance_int b \<longrightarrow>
      Rectangle_init l b = Inl (ValueError ''Length and Breadth must be numbers''))
   \<and> Rectangle_init (PyInt x) (PyInt y) = Inr \<lparr>self_l = PyInt x, self_b = PyInt y\<rparr>"
  by (simp add: Rectangle_init_def)

theorem rectangle_init_rejects_non_integers_witness:
  "Rectangle_init (PyStr ''3'') (PyInt 4) =
     Inl (ValueError ''Length and Breadth must be numbers'')
   \<and> Rectangle_init (PyInt 3) PyNone =
     Inl (ValueError ''Length and Breadth must be numbers'')
   \<and> Rectangle_init (PyInt 3) (PyInt 4) = Inr \<lparr>self_l = PyInt 3, self_b = PyInt 4\<rparr>"
  using rectangle_init_rejects_non_integers [of "PyStr ''3''" "PyInt 4" 3 4]
    rectangle_init_rejects_non_integers [of "PyInt 3" PyNone 3 4]
  by simp

text \<open>
  C10. Construction raises if and only if at least one argument fails
  \<open>isinstance(_, int)\<close>, and what it raises is always the \<open>ValueError\<close> with the
  message \<open>Length and Breadth must be numbers\<close>. A float in either position is
  rejected, although it is a number; booleans are accepted in both positions, alone or
  beside an integer, and are stored as they are.
\<close>

theorem rectangle_init_raises_iff:
  "isl (Rectangle_init l b) = (\<not> isinstance_int l \<or> \<not> isinstance_int b)
   \<and> (isl (Rectangle_init l b) \<longrightarrow>
        Rectangle_init l b = Inl (ValueError ''Length and Breadth must be numbers''))
   \<and> Rectangle_init (PyFloat m e) b = Inl (ValueError ''Length and Breadth must be numbers'')
   \<and> Rectangle_init l (PyFloat m e) = Inl (ValueError ''Length and Breadth must be numbers'')
   \<and> Rectangle_init (PyBool p) (PyBool q) = Inr \<lparr>self_l = PyBool p, self_b = PyBool q\<rparr>
   \<and> Rectangle_init (PyBool p) (PyInt y) = Inr \<lparr>self_l = PyBool p, self_b = PyInt y\<rparr>
   \<and> Rectangle_init (PyInt x) (PyBool q) = Inr \<lparr>self_l = PyInt x, self_b = PyBool q\<rparr>"
  by (simp add: Rectangle_init_def)

theorem rectangle_init_raises_iff_witness:
  "Rectangle_init (PyFloat 5 (- 1)) (PyInt 4) =
     Inl (ValueError ''Length and Breadth must be numbers'')
   \<and> Rectangle_init (PyInt 3) (PyFloat 5 (- 1)) =
     Inl (ValueError ''Length and Breadth must be numbers'')
   \<and> Rectangle_init (PyBool True) (PyBool False) =
     Inr \<lparr>self_l = PyBool True, self_b = PyBool False\<rparr>"
  using rectangle_init_raises_iff [of "PyFloat 5 (- 1)" "PyInt 4" 5 "- 1" True False 4 3]
    rectangle_init_raises_iff [of "PyInt 3" "PyInt 4" 5 "- 1" True False 4 3]
  by blast

end
